theory Spec2Isabelle
  imports
    Complex_Main
    "HOL-Library.AList"
    "HOL-Library.Sublist"
    "HOL-Library.Char_ord"
    "HOL-Library.List_Lexorder"
    "HOL-Library.Product_Lexorder"
    "HOL-Library.Code_Target_Numeral"
begin

section \<open>The JavaScript values the program computes with\<close>

text \<open>
  The program is TypeScript/JavaScript.  Its strings are modelled as \<open>string\<close> (character
  lists; only ASCII white space is recognised by \<open>trim\<close>), its exceptions as values of a
  sum type, its plain objects used as dictionaries as association lists that keep the
  creation order of the keys, and its numbers (IEEE doubles) as exact rationals together
  with \<open>NaN\<close> and the two infinities.  Rounding error of doubles, overflow and the sign of
  zero are outside this model, and so are property names that a plain object inherits
  from \<open>Object.prototype\<close>.
\<close>

subsection \<open>Exceptions\<close>

datatype error =
    Error string        \<comment> \<open>\<open>throw new Error(msg)\<close>, or a rejected request\<close>
  | TypeError string    \<comment> \<open>raised by the runtime\<close>

fun message :: "error \<Rightarrow> string" where
  "message (Error m) = m"
| "message (TypeError m) = m"

subsection \<open>Strings\<close>

definition startsWith :: "string \<Rightarrow> string \<Rightarrow> bool" where
  "startsWith s p = prefix p s"

definition isSpace :: "char \<Rightarrow> bool" where
  "isSpace c = (c \<in> set [CHR 0x09, CHR 0x0A, CHR 0x0B, CHR 0x0C, CHR 0x0D, CHR '' ''])"

definition trimStart :: "string \<Rightarrow> string" where
  "trimStart s = dropWhile isSpace s"

definition trim :: "string \<Rightarrow> string" where
  "trim s = rev (dropWhile isSpace (rev (dropWhile isSpace s)))"

text \<open>\<open>s.split(d)\<close> for a one-character separator: never the empty list.\<close>

fun splitOn :: "char \<Rightarrow> string \<Rightarrow> string list" where
  "splitOn d [] = [[]]"
| "splitOn d (c # cs) =
     (if c = d then [] # splitOn d cs
      else (case splitOn d cs of [] \<Rightarrow> [[c]] | r # rs \<Rightarrow> (c # r) # rs))"

definition stripCR :: "string \<Rightarrow> string" where
  "stripCR p = (if p \<noteq> [] \<and> last p = CHR 0x0D then butlast p else p)"

text \<open>\<open>s.split(/\r?\n/)\<close>: the separator is a line feed with one carriage return before it,
  when there is one.\<close>

definition splitLines :: "string \<Rightarrow> string list" where
  "splitLines s = (let ps = splitOn (CHR 0x0A) s in map stripCR (butlast ps) @ [last ps])"

definition isDigit :: "char \<Rightarrow> bool" where
  "isDigit c = (c \<in> set ''0123456789'')"

definition digitVal :: "char \<Rightarrow> nat" where
  "digitVal c = of_char c - 48"

definition natOfDigits :: "string \<Rightarrow> nat" where
  "natOfDigits s = foldl (\<lambda>n c. 10 * n + digitVal c) 0 s"

definition digitChar :: "nat \<Rightarrow> char" where
  "digitChar d = ''0123456789'' ! d"

fun showNat :: "nat \<Rightarrow> string" where
  "showNat n = (if n < 10 then [digitChar n] else showNat (n div 10) @ [digitChar (n mod 10)])"

declare showNat.simps [simp del]

text \<open>\<open>s.padStart(2, '0')\<close>\<close>

definition padStart2 :: "string \<Rightarrow> string" where
  "padStart2 s = replicate (2 - length s) (CHR ''0'') @ s"

subsection \<open>Plain objects used as dictionaries\<close>

text \<open>
  The own properties of an object, in creation order.  Assigning to an existing key keeps
  its place; a new key goes to the end.  \<open>Object.keys\<close> lists the keys that are array
  indices (canonical decimal numerals below \<open>2^32 - 1\<close>) first, in ascending numeric
  order, and the other keys after them in creation order.
\<close>

type_synonym 'v jsobj = "(string \<times> 'v) list"

definition obj_get :: "'v jsobj \<Rightarrow> string \<Rightarrow> 'v option" where
  "obj_get obj k = map_of obj k"

definition obj_set :: "'v jsobj \<Rightarrow> string \<Rightarrow> 'v \<Rightarrow> 'v jsobj" where
  "obj_set obj k v = AList.update k v obj"

definition arrayIndex :: "string \<Rightarrow> nat option" where
  "arrayIndex k =
     (if k \<noteq> [] \<and> list_all isDigit k \<and> (k = ''0'' \<or> hd k \<noteq> CHR ''0'')
         \<and> natOfDigits k < 2 ^ 32 - 1
      then Some (natOfDigits k) else None)"

definition Object_keys :: "'v jsobj \<Rightarrow> string list" where
  "Object_keys obj =
     (let ks = map fst obj in
      map snd (sort_key fst
        (List.map_filter (\<lambda>k. case arrayIndex k of None \<Rightarrow> None | Some i \<Rightarrow> Some (i, k)) ks))
      @ filter (\<lambda>k. arrayIndex k = None) ks)"

subsection \<open>Numbers\<close>

datatype jsnum = NaN | PosInf | NegInf | Num rat

definition isNaN :: "jsnum \<Rightarrow> bool" where
  "isNaN x = (x = NaN)"

fun js_less :: "jsnum \<Rightarrow> jsnum \<Rightarrow> bool" where
  "js_less NaN y = False"
| "js_less x NaN = False"
| "js_less PosInf y = False"
| "js_less NegInf y = (y \<noteq> NegInf)"
| "js_less (Num a) PosInf = True"
| "js_less (Num a) NegInf = False"
| "js_less (Num a) (Num b) = (a < b)"

fun js_add :: "jsnum \<Rightarrow> jsnum \<Rightarrow> jsnum" where
  "js_add NaN y = NaN"
| "js_add x NaN = NaN"
| "js_add PosInf y = (if y = NegInf then NaN else PosInf)"
| "js_add NegInf y = (if y = PosInf then NaN else NegInf)"
| "js_add (Num a) PosInf = PosInf"
| "js_add (Num a) NegInf = NegInf"
| "js_add (Num a) (Num b) = Num (a + b)"

fun js_neg :: "jsnum \<Rightarrow> jsnum" where
  "js_neg NaN = NaN"
| "js_neg PosInf = NegInf"
| "js_neg NegInf = PosInf"
| "js_neg (Num a) = Num (- a)"

text \<open>The sign of a number: \<open>None\<close> for \<open>NaN\<close>.\<close>

fun js_sgn :: "jsnum \<Rightarrow> int option" where
  "js_sgn NaN = None"
| "js_sgn PosInf = Some 1"
| "js_sgn NegInf = Some (- 1)"
| "js_sgn (Num a) = Some (if a < 0 then - 1 else if a = 0 then 0 else 1)"

fun js_mul :: "jsnum \<Rightarrow> jsnum \<Rightarrow> jsnum" where
  "js_mul (Num a) (Num b) = Num (a * b)"
| "js_mul x y =
     (case (js_sgn x, js_sgn y) of
        (Some s, Some t) \<Rightarrow> (if s * t = 0 then NaN else if 0 < s * t then PosInf else NegInf)
      | _ \<Rightarrow> NaN)"

text \<open>Division; a zero divisor has the sign plus.\<close>

fun js_div :: "jsnum \<Rightarrow> jsnum \<Rightarrow> jsnum" where
  "js_div NaN y = NaN"
| "js_div x NaN = NaN"
| "js_div (Num a) (Num b) =
     (if b \<noteq> 0 then Num (a / b)
      else if a = 0 then NaN else if 0 < a then PosInf else NegInf)"
| "js_div (Num a) y = Num 0"
| "js_div x (Num b) = (if (x = PosInf) = (0 \<le> b) then PosInf else NegInf)"
| "js_div x y = NaN"


text \<open>\<open>Math.round\<close>: the nearest integer, a tie going up.\<close>

fun math_round :: "jsnum \<Rightarrow> jsnum" where
  "math_round (Num a) = Num (of_int \<lfloor>a + 1 / 2\<rfloor>)"
| "math_round x = x"

definition pow10 :: "int \<Rightarrow> rat" where
  "pow10 e = (if 0 \<le> e then 10 ^ nat e else 1 / 10 ^ nat (- e))"

text \<open>The exponent part of a decimal literal, \<open>0\<close> when there is none or it is incomplete.\<close>

definition exponentPart :: "string \<Rightarrow> int" where
  "exponentPart s =
     (case s of
        [] \<Rightarrow> 0
      | c # r \<Rightarrow>
          if c = CHR ''e'' \<or> c = CHR ''E'' then
            (case r of
               [] \<Rightarrow> 0
             | d # r' \<Rightarrow>
                 if d = CHR ''-'' then
                   (if takeWhile isDigit r' = [] then 0
                    else - int (natOfDigits (takeWhile isDigit r')))
                 else if d = CHR ''+'' then int (natOfDigits (takeWhile isDigit r'))
                 else int (natOfDigits (takeWhile isDigit r)))
          else 0)"

text \<open>
  \<open>parseFloat\<close>: white space is skipped, then the longest prefix that is a decimal
  literal is read; \<open>NaN\<close> when there is none.
\<close>

definition parseFloat :: "string \<Rightarrow> jsnum" where
  "parseFloat s =
     (let t = trimStart s;
          neg = (t \<noteq> [] \<and> hd t = CHR ''-'');
          u = (if t \<noteq> [] \<and> (hd t = CHR ''-'' \<or> hd t = CHR ''+'') then tl t else t)
      in if startsWith u ''Infinity'' then (if neg then NegInf else PosInf)
         else
           let ip = takeWhile isDigit u;
               r1 = dropWhile isDigit u;
               fp = (if r1 \<noteq> [] \<and> hd r1 = CHR ''.'' then takeWhile isDigit (tl r1) else []);
               r2 = (if r1 \<noteq> [] \<and> hd r1 = CHR ''.'' then dropWhile isDigit (tl r1) else r1)
           in if ip = [] \<and> fp = [] then NaN
              else
                let m = of_nat (natOfDigits (ip @ fp)) / 10 ^ length fp * pow10 (exponentPart r2)
                in Num (if neg then - m else m))"

text \<open>
  \<open>x.toFixed(2)\<close>: the integer nearest to \<open>100 * |x|\<close> (the larger one on a tie), written
  with a point before its last two digits.  (From \<open>10^21\<close> on JavaScript switches to the
  exponent notation of doubles, which this model does not have.)
\<close>

definition fixed2 :: "rat \<Rightarrow> string" where
  "fixed2 a =
     (let m = showNat (nat \<lfloor>a * 100 + 1 / 2\<rfloor>);
          m' = replicate (3 - length m) (CHR ''0'') @ m
      in take (length m' - 2) m' @ ''.'' @ drop (length m' - 2) m')"


section \<open>The legacy-format converter (\<open>ConverterService\<close>)\<close>

record QBOJournalEntry =
  JournalNo :: string
  JournalDate :: string
  DueDate :: "string option"
  Description :: string
  Account :: string
  Debit :: string
  Credit :: string
  Name :: string
  LineAmount :: "string option"
  BillNo :: "string option"
  Supplier :: "string option"











text \<open>The state of the single pass of \<open>convertBills\<close>: the two column declarations, the
  context of the last \<open>TRNS\<close> line, and the rows pushed so far.\<close>

record billsState =
  headerMapTrns :: "nat jsobj"
  headerMapSpl :: "nat jsobj"
  docNum :: string
  date :: string
  dueDate :: string
  name :: string
  terms :: string
  processedRows :: "QBOJournalEntry list"






section \<open>The sync service (\<open>QBSyncService\<close>)\<close>

record QBSyncService =
  accountMap :: "string jsobj"   \<comment> \<open>Name -> Id\<close>
  vendorMap :: "string jsobj"    \<comment> \<open>Name -> Id\<close>

text \<open>The constructor.\<close>

definition newQBSyncService :: QBSyncService where
  "newQBSyncService = \<lparr> accountMap = [], vendorMap = [] \<rparr>"

text \<open>
  The answer of the remote ledger to one query of \<open>refreshMappings\<close>: the request fails
  (\<open>Inl\<close>), or it returns the list of (name, id) pairs, \<open>None\<close> when the response has no
  \<open>QueryResponse\<close> or no list in it.
\<close>

type_synonym queryResult = "error + (string \<times> string) list option"

text \<open>\<open>list.forEach(x => map[x.Name.trim()] = x.Id)\<close>\<close>

definition storeAll :: "string jsobj \<Rightarrow> (string \<times> string) list \<Rightarrow> string jsobj" where
  "storeAll m xs = foldl (\<lambda>m (n, i). obj_set m (trim n) i) m xs"

text \<open>\<open>refreshMappings\<close> returns the service as it leaves it and either the error it raised
  or the two counts.\<close>

definition refreshMappings ::
  "QBSyncService \<Rightarrow> queryResult \<Rightarrow> queryResult \<Rightarrow> QBSyncService \<times> (error + nat \<times> nat)" where
  "refreshMappings svc accData venData =
     (case accData of
        Inl e \<Rightarrow> (svc, Inl e)
      | Inr accounts \<Rightarrow>
          let svc1 = (case accounts of
                        None \<Rightarrow> svc
                      | Some accs \<Rightarrow> svc\<lparr>accountMap := storeAll (accountMap svc) accs\<rparr>)
          in (case venData of
                Inl e \<Rightarrow> (svc1, Inl e)
              | Inr vendors \<Rightarrow>
                  let svc2 = (case vendors of
                                None \<Rightarrow> svc1
                              | Some vens \<Rightarrow> svc1\<lparr>vendorMap := storeAll (vendorMap svc1) vens\<rparr>)
                  in (svc2, Inr (length (Object_keys (accountMap svc2)),
                                 length (Object_keys (vendorMap svc2))))))"

text \<open>A looked-up identifier is used when it is truthy: present and not the empty string.\<close>

definition truthy :: "string option \<Rightarrow> bool" where
  "truthy v = (case v of None \<Rightarrow> False | Some s \<Rightarrow> s \<noteq> '''')"

text \<open>\<open>findAccountId\<close>; \<open>None\<close> is \<open>null\<close>.\<close>

definition findAccountId :: "QBSyncService \<Rightarrow> string \<Rightarrow> string option" where
  "findAccountId svc accName =
     (let cleanName = trim accName
      in if truthy (obj_get (accountMap svc) cleanName) then obj_get (accountMap svc) cleanName
         else
           (case find (\<lambda>k. startsWith k cleanName \<or> startsWith cleanName k)
                   (Object_keys (accountMap svc)) of
              Some found \<Rightarrow> (if found \<noteq> '''' then obj_get (accountMap svc) found else None)
            | None \<Rightarrow> None))"

text \<open>\<open>formatDate\<close>; \<open>today\<close> is \<open>new Date().toISOString().split('T')[0]\<close>.\<close>

definition formatDate :: "string \<Rightarrow> string option \<Rightarrow> string" where
  "formatDate today dateStr =
     (case dateStr of
        None \<Rightarrow> today
      | Some s \<Rightarrow>
          if s = '''' then today
          else
            let parts = splitOn (CHR ''/'') s
            in if length parts = 3
               then (let m = parts ! 0; d = parts ! 1;
                         y = (if length (parts ! 2) = 2 then ''20'' @ parts ! 2 else parts ! 2)
                     in y @ ''-'' @ padStart2 m @ ''-'' @ padStart2 d)
               else s)"

subsection \<open>Submission\<close>

record payloadLine =
  lineDescription :: string
  lineAmount :: jsnum
  lineDetailType :: string
  linePostingType :: "string option"
  lineAccountRef :: string

record payload =
  DocNumber :: string
  TxnDate :: string
  payloadDueDate :: "string option"
  VendorRef :: "string option"
  Line :: "payloadLine list"

text \<open>What the service gets from its surroundings: the realm, the day, and the remote
  ledger, which answers a POST of a payload to a URL with an error or accepts it.\<close>

record syncEnv =
  realmId :: string
  todayISO :: string
  makeRequest :: "string \<Rightarrow> payload \<Rightarrow> error option"

record syncResults =
  success :: nat
  failed :: nat
  errors :: "string list"

text \<open>
  \<open>this.getBaseUrl()\<close>.  The class \<open>QBSyncService\<close> declares the constructor and the methods
  \<open>refreshMappings\<close>, \<open>syncJournalEntries\<close>, \<open>syncBills\<close>, \<open>findAccountId\<close> and \<open>formatDate\<close>,
  and nothing adds to the exported instance; it has no \<open>getBaseUrl\<close> (\<open>refreshMappings\<close>
  computes its base URL in place).  Calling the missing method raises a \<open>TypeError\<close>.
\<close>

definition getBaseUrl :: "QBSyncService \<Rightarrow> error + string" where
  "getBaseUrl svc = Inl (TypeError ''this.getBaseUrl is not a function'')"

text \<open>\<open>if (!groups[k]) groups[k] = []; groups[k].push(e)\<close>\<close>

definition pushGroup ::
  "QBOJournalEntry list jsobj \<Rightarrow> string \<Rightarrow> QBOJournalEntry \<Rightarrow> QBOJournalEntry list jsobj" where
  "pushGroup groups k e =
     (case obj_get groups k of
        None \<Rightarrow> obj_set groups k [e]
      | Some rows \<Rightarrow> obj_set groups k (rows @ [e]))"

definition groupBy ::
  "(QBOJournalEntry \<Rightarrow> string) \<Rightarrow> QBOJournalEntry list \<Rightarrow> QBOJournalEntry list jsobj" where
  "groupBy key entries = foldl (\<lambda>groups e. pushGroup groups (key e) e) [] entries"

text \<open>\<open>Object.entries(groups)\<close>\<close>

definition Object_entries :: "'v jsobj \<Rightarrow> (string \<times> 'v) list" where
  "Object_entries obj =
     List.map_filter (\<lambda>k. case obj_get obj k of None \<Rightarrow> None | Some v \<Rightarrow> Some (k, v))
       (Object_keys obj)"

text \<open>\<open>rows.map(f)\<close> where \<open>f\<close> may throw: the first exception ends the map.\<close>

fun mapThrowing :: "('a \<Rightarrow> error + 'b) \<Rightarrow> 'a list \<Rightarrow> error + 'b list" where
  "mapThrowing f [] = Inr []"
| "mapThrowing f (x # xs) =
     (case f x of
        Inl e \<Rightarrow> Inl e
      | Inr y \<Rightarrow> (case mapThrowing f xs of Inl e \<Rightarrow> Inl e | Inr ys \<Rightarrow> Inr (y # ys)))"

definition journalLine :: "QBSyncService \<Rightarrow> QBOJournalEntry \<Rightarrow> error + payloadLine" where
  "journalLine svc row =
     (let amount = parseFloat (if Debit row \<noteq> '''' then Debit row else Credit row);
          accountId = findAccountId svc (Account row)
      in if \<not> truthy accountId
         then Inl (Error (''Account '' @ [CHR 0x22] @ Account row @ [CHR 0x22] @ '' not found in QuickBooks.''))
         else Inr \<lparr> lineDescription = Description row, lineAmount = amount,
                    lineDetailType = ''JournalEntryLineDetail'',
                    linePostingType =
                      Some (if Debit row \<noteq> ''0'' \<and> Debit row \<noteq> '''' then ''Debit'' else ''Credit''),
                    lineAccountRef = the accountId \<rparr>)"

text \<open>The body of the \<open>try\<close> block of \<open>syncJournalEntries\<close> for one group.\<close>

definition submitJournal ::
  "QBSyncService \<Rightarrow> syncEnv \<Rightarrow> string \<Rightarrow> string \<Rightarrow> QBOJournalEntry list \<Rightarrow> error option" where
  "submitJournal svc env url journalNo rows =
     (case rows of
        [] \<Rightarrow> Some (TypeError ''Cannot read properties of undefined (reading 'JournalDate')'')
      | row0 # _ \<Rightarrow>
          (case mapThrowing (journalLine svc) rows of
             Inl e \<Rightarrow> Some e
           | Inr ls \<Rightarrow>
               makeRequest env url
                 \<lparr> DocNumber = journalNo,
                   TxnDate = formatDate (todayISO env) (Some (JournalDate row0)),
                   payloadDueDate = None, VendorRef = None, Line = ls \<rparr>))"

text \<open>One iteration of the \<open>for\<close> loop: the \<open>try\<close> block and its \<open>catch\<close>.\<close>

definition recordOutcome :: "string \<Rightarrow> syncResults \<Rightarrow> string \<Rightarrow> error option \<Rightarrow> syncResults" where
  "recordOutcome kind results docNo outcome =
     (case outcome of
        None \<Rightarrow> results\<lparr>success := success results + 1\<rparr>
      | Some err \<Rightarrow>
          results\<lparr>failed := failed results + 1,
                  errors := errors results @ [kind @ '' '' @ docNo @ '': '' @ message err]\<rparr>)"

definition journalLoop ::
  "QBSyncService \<Rightarrow> syncEnv \<Rightarrow> string \<Rightarrow> (string \<times> QBOJournalEntry list) list \<Rightarrow> syncResults" where
  "journalLoop svc env url groups =
     foldl (\<lambda>results (journalNo, rows).
              recordOutcome ''Journal'' results journalNo (submitJournal svc env url journalNo rows))
       \<lparr> success = 0, failed = 0, errors = [] \<rparr> groups"

definition syncJournalEntries ::
  "QBSyncService \<Rightarrow> syncEnv \<Rightarrow> QBOJournalEntry list \<Rightarrow> error + syncResults" where
  "syncJournalEntries svc env entries =
     (case getBaseUrl svc of
        Inl e \<Rightarrow> Inl e
      | Inr baseUrl \<Rightarrow>
          let url = baseUrl @ ''/v3/company/'' @ realmId env @ ''/journalentry'';
              groups = groupBy JournalNo entries
          in Inr (journalLoop svc env url (Object_entries groups)))"

definition billLine :: "QBSyncService \<Rightarrow> QBOJournalEntry \<Rightarrow> error + payloadLine" where
  "billLine svc row =
     (let accountId = findAccountId svc (Account row)
      in if \<not> truthy accountId
         then Inl (Error (''Account '' @ [CHR 0x22] @ Account row @ [CHR 0x22] @ '' not found in QuickBooks.''))
         else Inr \<lparr> lineDescription = Description row,
                    lineAmount = (case LineAmount row of None \<Rightarrow> NaN | Some a \<Rightarrow> parseFloat a),
                    lineDetailType = ''AccountBasedExpenseLineDetail'',
                    linePostingType = None,
                    lineAccountRef = the accountId \<rparr>)"

text \<open>The body of the \<open>try\<close> block of \<open>syncBills\<close> for one group.\<close>

definition submitBill ::
  "QBSyncService \<Rightarrow> syncEnv \<Rightarrow> string \<Rightarrow> string \<Rightarrow> QBOJournalEntry list \<Rightarrow> error option" where
  "submitBill svc env url billNo rows =
     (case rows of
        [] \<Rightarrow> Some (TypeError ''Cannot read properties of undefined (reading 'Supplier')'')
      | row0 # _ \<Rightarrow>
          (case Supplier row0 of
             None \<Rightarrow> Some (TypeError ''Cannot read properties of undefined (reading 'trim')'')
           | Some supplierName \<Rightarrow>
               let vendorId = obj_get (vendorMap svc) (trim supplierName)
               in if \<not> truthy vendorId
                  then Some (Error (''Vendor '' @ [CHR 0x22] @ supplierName @ [CHR 0x22]
                                     @ '' not found in QuickBooks.''))
                  else
                    (case mapThrowing (billLine svc) rows of
                       Inl e \<Rightarrow> Some e
                     | Inr ls \<Rightarrow>
                         makeRequest env url
                           \<lparr> DocNumber = billNo,
                             TxnDate = formatDate (todayISO env) (Some (JournalDate row0)),
                             payloadDueDate = Some (formatDate (todayISO env) (DueDate row0)),
                             VendorRef = vendorId, Line = ls \<rparr>)))"

definition billLoop ::
  "QBSyncService \<Rightarrow> syncEnv \<Rightarrow> string \<Rightarrow> (string \<times> QBOJournalEntry list) list \<Rightarrow> syncResults" where
  "billLoop svc env url groups =
     foldl (\<lambda>results (billNo, rows).
              recordOutcome ''Bill'' results billNo (submitBill svc env url billNo rows))
       \<lparr> success = 0, failed = 0, errors = [] \<rparr> groups"

text \<open>The key of a row without bill number is the string \<open>undefined\<close>.\<close>

definition billKey :: "QBOJournalEntry \<Rightarrow> string" where
  "billKey e = (case BillNo e of None \<Rightarrow> ''undefined'' | Some b \<Rightarrow> b)"

definition syncBills ::
  "QBSyncService \<Rightarrow> syncEnv \<Rightarrow> QBOJournalEntry list \<Rightarrow> error + syncResults" where
  "syncBills svc env entries =
     (case getBaseUrl svc of
        Inl e \<Rightarrow> Inl e
      | Inr baseUrl \<Rightarrow>
          let url = baseUrl @ ''/v3/company/'' @ realmId env @ ''/bill'';
              groups = groupBy billKey entries
          in Inr (billLoop svc env url (Object_entries groups)))"

section \<open>The ledger ingestion (\<open>csvProcessor\<close>)\<close>

subsection \<open>Dates\<close>

text \<open>
  A valid \<open>Date\<close> object as its local-time accessors show it; \<open>getMonth\<close> counts from 0.
  An invalid date is \<open>None\<close>.  The time zone is taken as a fixed offset, so that
  \<open>setDate\<close> is calendar arithmetic on the local fields.
\<close>

record jsDate =
  getFullYear :: nat
  getMonth :: nat
  getDate :: nat
  getHours :: nat
  getMinutes :: nat
  getSeconds :: nat
  getMilliseconds :: nat

definition isLeapYear :: "nat \<Rightarrow> bool" where
  "isLeapYear y = ((y mod 4 = 0 \<and> y mod 100 \<noteq> 0) \<or> y mod 400 = 0)"

definition daysInMonth :: "nat \<Rightarrow> nat \<Rightarrow> nat" where
  "daysInMonth y m =
     (if m = 1 then (if isLeapYear y then 29 else 28)
      else if m = 3 \<or> m = 5 \<or> m = 8 \<or> m = 10 then 30 else 31)"

text \<open>A day number beyond the end of the month runs over into the following months.\<close>

function rollDate :: "nat \<Rightarrow> nat \<Rightarrow> nat \<Rightarrow> nat \<times> nat \<times> nat" where
  "rollDate y m n =
     (if n \<le> daysInMonth y m then (y, m, n)
      else rollDate (if 11 \<le> m then y + 1 else y) (if 11 \<le> m then 0 else m + 1)
             (n - daysInMonth y m))"
  by pat_completeness auto
termination
  by (relation "measure (\<lambda>(y, m, n). n)") (auto simp: daysInMonth_def)

declare rollDate.simps [simp del]

text \<open>\<open>d.setDate(n)\<close>; day 0 is the last day of the month before.\<close>

definition setDate :: "jsDate \<Rightarrow> nat \<Rightarrow> jsDate" where
  "setDate d n =
     (if n = 0 then
        (if getMonth d = 0 then d\<lparr>getFullYear := getFullYear d - 1, getMonth := 11, getDate := 31\<rparr>
         else d\<lparr>getMonth := getMonth d - 1,
                getDate := daysInMonth (getFullYear d) (getMonth d - 1)\<rparr>)
      else (case rollDate (getFullYear d) (getMonth d) n of
              (y, m, n') \<Rightarrow> d\<lparr>getFullYear := y, getMonth := m, getDate := n'\<rparr>))"

text \<open>\<open>d.toLocaleDateString()\<close> in the locale of the specification's examples (\<open>1/5/2024\<close>).\<close>

definition toLocaleDateString :: "jsDate option \<Rightarrow> string" where
  "toLocaleDateString dt =
     (case dt of
        None \<Rightarrow> ''Invalid Date''
      | Some d \<Rightarrow> showNat (getMonth d + 1) @ ''/'' @ showNat (getDate d) @ ''/''
                  @ showNat (getFullYear d))"

text \<open>The number of the day, counted from 1 January 1970.\<close>

definition dayNumber :: "nat \<Rightarrow> nat \<Rightarrow> nat \<Rightarrow> int" where
  "dayNumber y m d =
     (let y' = int y - (if m < 2 then 1 else 0);
          era = y' div 400;
          yoe = y' - era * 400;
          mp = (int m + 10) mod 12;
          doy = (153 * mp + 2) div 5 + int d - 1;
          doe = yoe * 365 + yoe div 4 - yoe div 100 + doy
      in era * 146097 + doe - 719468)"

text \<open>\<open>d.getTime()\<close>, \<open>NaN\<close> for an invalid date.\<close>

definition getTime :: "jsDate option \<Rightarrow> jsnum" where
  "getTime dt =
     (case dt of
        None \<Rightarrow> NaN
      | Some d \<Rightarrow>
          Num (of_int ((((dayNumber (getFullYear d) (getMonth d) (getDate d) * 24
                           + int (getHours d)) * 60 + int (getMinutes d)) * 60
                           + int (getSeconds d)) * 1000 + int (getMilliseconds d))))"

text \<open>What the module takes from the platform: the \<open>Date\<close> constructor on a string, and
  the current time in the two renderings the code asks for.\<close>

record csvEnv =
  newDate :: "string \<Rightarrow> jsDate option"
  nowISO :: string
  todayLocal :: string

subsection \<open>Transactions and daily groups\<close>

record ShopifyTransaction =
  id' :: string
  orderNumber :: string
  dateTime :: string
  customerName :: string
  amount :: jsnum
  fee :: jsnum
  net :: jsnum
  type' :: string
  cardBrand :: string
  currency :: string
  sourceFile :: string

record DailyGroup =
  date :: string
  subtotal :: jsnum
  subtotalFees :: jsnum
  subtotalNet :: jsnum
  count :: nat
  transactions :: "ShopifyTransaction list"

record ReportSummary =
  dateRange :: string
  totalAmount :: jsnum
  totalFees :: jsnum
  totalNet :: jsnum
  transactionCount :: nat
  dailyGroups :: "DailyGroup list"
  allTransactions :: "ShopifyTransaction list"
  aiAnalysis :: "string option"

text \<open>\<open>Math.round(x * 100)\<close>\<close>

definition cents :: "jsnum \<Rightarrow> jsnum" where
  "cents x = math_round (js_mul x (Num 100))"

text \<open>\<open>(Math.round(a * 100) + Math.round(b * 100)) / 100\<close>\<close>

definition centAdd :: "jsnum \<Rightarrow> jsnum \<Rightarrow> jsnum" where
  "centAdd a b = js_div (js_add (cents a) (cents b)) (Num 100)"

text \<open>\<open>xs.reduce((sum, x) => sum + Math.round(x * 100), 0) / 100\<close>, the sum the ingestion
  takes for its grand totals.\<close>

definition centTotal :: "jsnum list \<Rightarrow> jsnum" where
  "centTotal xs = js_div (foldl (\<lambda>sum x. js_add sum (cents x)) (Num 0) xs) (Num 100)"

definition getReportingDateString :: "csvEnv \<Rightarrow> string \<Rightarrow> string" where
  "getReportingDateString env isoString =
     (case newDate env isoString of
        None \<Rightarrow> toLocaleDateString None
      | Some d \<Rightarrow>
          toLocaleDateString
            (Some (if 16 \<le> getHours d then setDate d (getDate d + 1) else d)))"

text \<open>The state of the loop of \<open>groupTransactionsByDate\<close>: the groups pushed so far and the
  current group.\<close>

type_synonym groupState = "DailyGroup list \<times> DailyGroup option"

definition newGroup :: "string \<Rightarrow> DailyGroup" where
  "newGroup tDate = \<lparr> date = tDate, subtotal = Num 0, subtotalFees = Num 0, subtotalNet = Num 0,
                      count = 0, transactions = [] \<rparr>"

definition appendTransaction :: "DailyGroup \<Rightarrow> ShopifyTransaction \<Rightarrow> DailyGroup" where
  "appendTransaction g t =
     g\<lparr> transactions := transactions g @ [t],
        subtotal := centAdd (subtotal g) (amount t),
        subtotalFees := centAdd (subtotalFees g) (fee t),
        subtotalNet := centAdd (subtotalNet g) (net t),
        count := count g + 1 \<rparr>"

definition groupStep :: "csvEnv \<Rightarrow> groupState \<Rightarrow> ShopifyTransaction \<Rightarrow> groupState" where
  "groupStep env st t =
     (let tDate = getReportingDateString env (dateTime t)
      in case snd st of
           None \<Rightarrow> (fst st, Some (appendTransaction (newGroup tDate) t))
         | Some g \<Rightarrow>
             if date g \<noteq> tDate
             then (fst st @ [g], Some (appendTransaction (newGroup tDate) t))
             else (fst st, Some (appendTransaction g t)))"

definition groupTransactionsByDate :: "csvEnv \<Rightarrow> ShopifyTransaction list \<Rightarrow> DailyGroup list" where
  "groupTransactionsByDate env ts =
     (if 0 < length ts
      then (case foldl (groupStep env) ([], None) ts of
              (groups, None) \<Rightarrow> groups
            | (groups, Some g) \<Rightarrow> groups @ [g])
      else [])"

subsection \<open>Reading the files\<close>

text \<open>A row of a parsed file is an object from column names to strings.  A file is read
  into its rows, or the reader reports an error.\<close>

type_synonym csvRow = "string jsobj"

record csvFile =
  fileName :: string
  parseResult :: "error + csvRow list"

text \<open>\<open>a || b\<close> on values that are strings or undefined, and \<open>a || 'default'\<close>.\<close>

definition orElse :: "string option \<Rightarrow> string option \<Rightarrow> string option" where
  "orElse a b = (if truthy a then a else b)"

definition orDefault :: "string option \<Rightarrow> string \<Rightarrow> string" where
  "orDefault a d = (case a of None \<Rightarrow> d | Some s \<Rightarrow> if s \<noteq> '''' then s else d)"

text \<open>\<open>s.replace(/[^0-9.-]+/g, "")\<close>\<close>

definition cleanNumber :: "string \<Rightarrow> string" where
  "cleanNumber s = filter (\<lambda>c. c \<in> set ''0123456789.-'') s"

text \<open>\<open>x === y\<close> on numbers.\<close>

definition js_eq :: "jsnum \<Rightarrow> jsnum \<Rightarrow> bool" where
  "js_eq x y = (x \<noteq> NaN \<and> y \<noteq> NaN \<and> x = y)"

text \<open>The body of the row loop of \<open>parseShopifyCSV\<close>: the transaction pushed for a row, if
  any.\<close>

definition shopifyRow :: "csvEnv \<Rightarrow> string \<Rightarrow> nat \<Rightarrow> csvRow \<Rightarrow> ShopifyTransaction option" where
  "shopifyRow env file globalEntryCounter row =
     (let keys = Object_keys row;
          dateValue =
            orElse (obj_get row ''Created at'')
              (orElse (obj_get row ''Date'')
                (orElse (obj_get row ''Processed at'')
                  (orElse (obj_get row ''Occurred at'')
                    (orElse (obj_get row ''Day'')
                      (if 0 < length keys then obj_get row (keys ! 0) else None)))));
          dateTime = orDefault dateValue (nowISO env);
          orderId =
            orDefault
              (orElse (obj_get row ''Name'')
                (orElse (obj_get row ''Order'')
                  (orElse (obj_get row ''Order ID'') (obj_get row ''ID''))))
              (''Line-'' @ showNat globalEntryCounter);
          rawAmount = orDefault (orElse (obj_get row ''Amount'') (obj_get row ''Total'')) ''0'';
          amount = parseFloat (cleanNumber rawAmount);
          rawFee =
            orDefault
              (orElse (obj_get row ''Fee'')
                (orElse (obj_get row ''Fees'') (obj_get row ''Transaction Fee''))) ''0'';
          fee = parseFloat (cleanNumber rawFee);
          rawNet = orDefault (orElse (obj_get row ''Net'') (obj_get row ''Net Amount'')) ''0'';
          net0 = parseFloat (cleanNumber rawNet);
          net = (if js_eq net0 (Num 0) \<and> (\<not> js_eq amount (Num 0) \<or> \<not> js_eq fee (Num 0))
                 then centAdd amount fee else net0);
          status =
            orDefault
              (orElse (obj_get row ''Status'')
                (orElse (obj_get row ''Financial Status'') (obj_get row ''Type''))) ''Unknown'';
          customer =
            orDefault
              (orElse (obj_get row ''Billing Name'')
                (orElse (obj_get row ''Customer'') (obj_get row ''Source''))) ''Internal/Guest'';
          currency = orDefault (obj_get row ''Currency'') ''USD'';
          cardBrand =
            orDefault
              (orElse (obj_get row ''Card Brand'')
                (orElse (obj_get row ''Brand'')
                  (orElse (obj_get row ''Payment Method'') (obj_get row ''Card'')))) ''N/A''
      in if \<not> isNaN amount
         then Some \<lparr> id' = orderId @ ''-'' @ showNat globalEntryCounter, orderNumber = orderId,
                     dateTime = dateTime, customerName = customer, amount = amount, fee = fee,
                     net = net, type' = status, cardBrand = cardBrand, currency = currency,
                     sourceFile = file \<rparr>
         else None)"

text \<open>\<open>cleanFloat\<close> of \<open>parsePaypalCSV\<close>\<close>

definition cleanFloat :: "string option \<Rightarrow> jsnum" where
  "cleanFloat val = (if \<not> truthy val then Num 0 else parseFloat (cleanNumber (the val)))"

text \<open>The body of the row loop of \<open>parsePaypalCSV\<close>.\<close>

definition paypalRow :: "csvEnv \<Rightarrow> string \<Rightarrow> nat \<Rightarrow> csvRow \<Rightarrow> ShopifyTransaction option" where
  "paypalRow env file globalEntryCounter row =
     (let dateStr = obj_get row ''Date'';
          timeStr = obj_get row ''Time''
      in if \<not> truthy dateStr \<or> \<not> truthy timeStr then None
         else
           let type = orDefault (obj_get row ''Type'') ''Unknown''
           in if type = ''General Withdrawal'' \<or> type = ''User Initiated Withdrawal'' then None
              else
                let dateTime = the dateStr @ '' '' @ the timeStr;
                    orderId = orDefault (obj_get row ''Transaction ID'')
                                (''PP-'' @ showNat globalEntryCounter);
                    amount = cleanFloat (obj_get row ''Gross'');
                    fee = cleanFloat (obj_get row ''Fee'');
                    net = cleanFloat (obj_get row ''Net'');
                    customer = orDefault (obj_get row ''Name'') ''Unknown'';
                    currency = orDefault (obj_get row ''Currency'') ''USD''
                in if js_eq amount (Num 0) \<and> js_eq fee (Num 0) \<and> js_eq net (Num 0) then None
                   else Some \<lparr> id' = orderId @ ''-'' @ showNat globalEntryCounter,
                               orderNumber = orderId, dateTime = dateTime,
                               customerName = customer, amount = amount, fee = fee, net = net,
                               type' = type, cardBrand = ''PayPal'', currency = currency,
                               sourceFile = file \<rparr>)"

text \<open>The transactions pushed so far and \<open>globalEntryCounter\<close>.\<close>

type_synonym ingestState = "ShopifyTransaction list \<times> nat"

definition rowStep ::
  "(nat \<Rightarrow> csvRow \<Rightarrow> ShopifyTransaction option) \<Rightarrow> ingestState \<Rightarrow> csvRow \<Rightarrow> ingestState" where
  "rowStep rowFn st row =
     (case rowFn (snd st) row of
        None \<Rightarrow> st
      | Some t \<Rightarrow> (fst st @ [t], snd st + 1))"

text \<open>\<open>await Promise.all(fileArray.map(parseFile))\<close>: every file adds its rows; a reader
  error rejects the whole call.\<close>

fun parseFiles ::
  "(string \<Rightarrow> nat \<Rightarrow> csvRow \<Rightarrow> ShopifyTransaction option) \<Rightarrow> ingestState \<Rightarrow> csvFile list
     \<Rightarrow> error + ingestState" where
  "parseFiles rowFn st [] = Inr st"
| "parseFiles rowFn st (f # fs) =
     (case parseResult f of
        Inl e \<Rightarrow> Inl e
      | Inr rows \<Rightarrow> parseFiles rowFn (foldl (rowStep (rowFn (fileName f))) st rows) fs)"

text \<open>\<open>ts.sort((a, b) => new Date(b.dateTime).getTime() - new Date(a.dateTime).getTime())\<close>:
  a stable sort; a comparison that is \<open>NaN\<close> counts as equal.\<close>

definition notAfter :: "csvEnv \<Rightarrow> ShopifyTransaction \<Rightarrow> ShopifyTransaction \<Rightarrow> bool" where
  "notAfter env a b =
     (\<not> js_less (Num 0)
           (js_add (getTime (newDate env (dateTime b)))
                   (js_neg (getTime (newDate env (dateTime a))))))"

fun insertSorted ::
  "csvEnv \<Rightarrow> ShopifyTransaction \<Rightarrow> ShopifyTransaction list \<Rightarrow> ShopifyTransaction list" where
  "insertSorted env a [] = [a]"
| "insertSorted env a (b # bs) =
     (if notAfter env a b then a # b # bs else b # insertSorted env a bs)"

definition sortNewestFirst :: "csvEnv \<Rightarrow> ShopifyTransaction list \<Rightarrow> ShopifyTransaction list" where
  "sortNewestFirst env ts = foldr (insertSorted env) ts []"

text \<open>What both ingestion functions do with the transactions of all files.\<close>

definition summarize :: "csvEnv \<Rightarrow> ShopifyTransaction list \<Rightarrow> ReportSummary" where
  "summarize env pushed =
     (let allTransactions = sortNewestFirst env pushed;
          dailyGroups = groupTransactionsByDate env allTransactions;
          dateRange =
            (if 0 < length dailyGroups
             then (let newest = date (dailyGroups ! 0);
                       oldest = date (dailyGroups ! (length dailyGroups - 1))
                   in if oldest = newest then oldest else oldest @ '' - '' @ newest)
             else todayLocal env)
      in \<lparr> dateRange = dateRange,
           totalAmount = centTotal (map amount allTransactions),
           totalFees = centTotal (map fee allTransactions),
           totalNet = centTotal (map net allTransactions),
           transactionCount = length allTransactions,
           dailyGroups = dailyGroups,
           allTransactions = allTransactions,
           aiAnalysis = None \<rparr>)"

definition parseShopifyCSV :: "csvEnv \<Rightarrow> csvFile list \<Rightarrow> error + ReportSummary" where
  "parseShopifyCSV env files =
     (case parseFiles (shopifyRow env) ([], 0) files of
        Inl e \<Rightarrow> Inl e
      | Inr st \<Rightarrow> Inr (summarize env (fst st)))"

definition parsePaypalCSV :: "csvEnv \<Rightarrow> csvFile list \<Rightarrow> error + ReportSummary" where
  "parsePaypalCSV env files =
     (case parseFiles (paypalRow env) ([], 0) files of
        Inl e \<Rightarrow> Inl e
      | Inr st \<Rightarrow> Inr (summarize env (fst st)))"

subsection \<open>The properties of the groups, as the specification words them\<close>







section \<open>Evaluation on concrete inputs\<close>

lemma floor_rat_numeral_div:
  "\<lfloor>(numeral a / numeral b :: rat)\<rfloor> = numeral a div numeral b"
  using floor_divide_of_int_eq [of "numeral a" "numeral b", where ?'a = rat] by simp

lemma floor_rat_minus_numeral_div:
  "\<lfloor>- (numeral a / numeral b :: rat)\<rfloor> = - numeral a div numeral b"
  using floor_divide_of_int_eq [of "- numeral a" "numeral b", where ?'a = rat] by simp

lemma floor_rat_one_div_numeral: "\<lfloor>(1 / numeral b :: rat)\<rfloor> = 1 div numeral b"
  using floor_divide_of_int_eq [of 1 "numeral b", where ?'a = rat] by simp

lemmas js_eval =
  floor_rat_numeral_div floor_rat_minus_numeral_div floor_rat_one_div_numeral showNat.simps
  digitChar_def fixed2_def parseFloat_def trimStart_def isSpace_def startsWith_def isDigit_def natOfDigits_def
  digitVal_def exponentPart_def pow10_def trim_def stripCR_def splitLines_def obj_get_def
  obj_set_def arrayIndex_def Object_keys_def List.map_filter_def isNaN_def Let_def



section \<open>Objects, strings and numbers\<close>


lemma length_Object_keys: "length (Object_keys obj) = length obj"
proof -
  have "length (List.map_filter
                  (\<lambda>k. case arrayIndex k of None \<Rightarrow> None | Some i \<Rightarrow> Some (i, k)) ks)
          + length (filter (\<lambda>k. arrayIndex k = None) ks) = length ks" for ks :: "string list"
    by (induction ks) (auto split: option.splits)
  from this [of "map fst obj"] show ?thesis
    by (simp add: Object_keys_def Let_def)
qed


lemma set_Object_keys: "set (Object_keys obj) = fst ` set obj"
proof -
  have "set (List.map_filter
               (\<lambda>k. case arrayIndex k of None \<Rightarrow> None | Some i \<Rightarrow> Some (i, k)) ks)
          = {(i, k). k \<in> set ks \<and> arrayIndex k = Some i}" for ks :: "string list"
    by (induction ks) (auto split: option.splits)
  then have "snd ` set (List.map_filter
               (\<lambda>k. case arrayIndex k of None \<Rightarrow> None | Some i \<Rightarrow> Some (i, k)) ks)
          = {k \<in> set ks. arrayIndex k \<noteq> None}" for ks :: "string list"
    by force
  then show ?thesis
    by (auto simp: Object_keys_def Let_def)
qed




lemma map_of_obj_set: "map_of (obj_set m k v) = (map_of m)(k \<mapsto> v)"
  by (simp add: obj_set_def update_conv')












section \<open>The converter\<close>

subsection \<open>A missing declaration line\<close>








subsection \<open>Which declaration a data line is read with\<close>











subsection \<open>Debit and credit of a General-Ledger line\<close>




subsection \<open>An amount that is not a number, in Accounts-Payable mode\<close>





section \<open>The sync service\<close>

subsection \<open>Refreshing the maps\<close>

lemma map_of_storeAll:
  "map_of (storeAll m xs) = map_of m ++ map_of (rev (map (\<lambda>(n, i). (trim n, i)) xs))"
proof (induction xs arbitrary: m)
  case Nil
  show ?case by (simp add: storeAll_def)
next
  case (Cons x xs)
  obtain n i where x: "x = (n, i)" by (cases x)
  have step: "storeAll m (x # xs) = storeAll (obj_set m (trim n) i) xs"
    by (simp add: storeAll_def x)
  have "map_of (storeAll m (x # xs)) k
      = (map_of m ++ map_of (rev (map (\<lambda>(n, i). (trim n, i)) (x # xs)))) k" for k
    unfolding step Cons.IH map_of_obj_set
    by (simp add: x map_add_def split: option.splits)
  then show ?case by (rule ext)
qed

lemma dom_map_of_storeAll: "dom (map_of m) \<subseteq> dom (map_of (storeAll m xs))"
  unfolding map_of_storeAll by (simp only: dom_map_add Un_upper2)

text \<open>
  Claim C3, as the code has it.  \<open>refreshMappings\<close> never empties a map: it stores each fetched
  (trimmed name, id) pair into the map it already has.  After the call the account map is
  the old account map overridden by the fetched accounts (a name fetched twice keeps the
  id fetched last), or the old map when the account request failed or returned no list;
  the vendor map likewise, and it is untouched when the account request failed.  No key
  of either map is ever removed.
\<close>

theorem refresh_merges_into_maps:
  assumes "refreshMappings svc accData venData = (svc', r)"
  shows "map_of (accountMap svc')
           = (case accData of
                Inr (Some accs) \<Rightarrow>
                  map_of (accountMap svc) ++ map_of (rev (map (\<lambda>(n, i). (trim n, i)) accs))
              | _ \<Rightarrow> map_of (accountMap svc))
       \<and> map_of (vendorMap svc')
           = (case (accData, venData) of
                (Inr _, Inr (Some vens)) \<Rightarrow>
                  map_of (vendorMap svc) ++ map_of (rev (map (\<lambda>(n, i). (trim n, i)) vens))
              | _ \<Rightarrow> map_of (vendorMap svc))
       \<and> dom (map_of (accountMap svc)) \<subseteq> dom (map_of (accountMap svc'))
       \<and> dom (map_of (vendorMap svc)) \<subseteq> dom (map_of (vendorMap svc'))"
proof -
  have acc: "accountMap svc'
      = (case accData of Inr (Some accs) \<Rightarrow> storeAll (accountMap svc) accs | _ \<Rightarrow> accountMap svc)"
    using assms by (auto simp: refreshMappings_def Let_def split: sum.splits option.splits)
  have ven: "vendorMap svc'
      = (case (accData, venData) of
           (Inr _, Inr (Some vens)) \<Rightarrow> storeAll (vendorMap svc) vens | _ \<Rightarrow> vendorMap svc)"
    using assms by (auto simp: refreshMappings_def Let_def split: sum.splits option.splits)
  show ?thesis
    unfolding acc ven
    using dom_map_of_storeAll [of "accountMap svc"] dom_map_of_storeAll [of "vendorMap svc"]
    by (simp add: map_of_storeAll split: sum.splits option.splits)
qed

text \<open>The same refresh: \<open>Old\<close> keeps its id, \<open>New\<close> is added.\<close>

theorem refresh_merges_into_maps_witness:
  "map_of (accountMap (fst (refreshMappings \<lparr>accountMap = [(''Old'', ''1'')], vendorMap = []\<rparr>
                      (Inr (Some [(''New'', ''2'')])) (Inr (Some []))))) ''Old'' = Some ''1''
   \<and> map_of (accountMap (fst (refreshMappings \<lparr>accountMap = [(''Old'', ''1'')], vendorMap = []\<rparr>
                      (Inr (Some [(''New'', ''2'')])) (Inr (Some []))))) ''New'' = Some ''2''"
  using refresh_merges_into_maps [of "\<lparr>accountMap = [(''Old'', ''1'')], vendorMap = []\<rparr>"
      "Inr (Some [(''New'', ''2'')])" "Inr (Some [])"
      "fst (refreshMappings \<lparr>accountMap = [(''Old'', ''1'')], vendorMap = []\<rparr>
                      (Inr (Some [(''New'', ''2'')])) (Inr (Some [])))"
      "snd (refreshMappings \<lparr>accountMap = [(''Old'', ''1'')], vendorMap = []\<rparr>
                      (Inr (Some [(''New'', ''2'')])) (Inr (Some [])))"]
  by (simp add: js_eval)

text \<open>Claim C3 as stated fails: a first refresh fetches the account \<open>Old\<close>, a second one
  fetches only \<open>New\<close>; \<open>Old\<close> was not fetched again and is still in the map.\<close>

theorem refresh_keeps_old_entry_counterexample:
  "accountMap (fst (refreshMappings
       (fst (refreshMappings newQBSyncService (Inr (Some [(''Old'', ''1'')])) (Inr (Some []))))
       (Inr (Some [(''New'', ''2'')])) (Inr (Some []))))
     = [(''Old'', ''1''), (''New'', ''2'')]"
  by (simp add: refreshMappings_def newQBSyncService_def storeAll_def js_eval)

subsection \<open>Resolving an account label\<close>




subsection \<open>Submitting the documents\<close>

lemma recordOutcome_counts:
  "success (recordOutcome kind r k out) + failed (recordOutcome kind r k out)
     = Suc (success r + failed r)
   \<and> length (errors (recordOutcome kind r k out)) + failed r
     = length (errors r) + failed (recordOutcome kind r k out)
   \<and> set (errors r) \<subseteq> set (errors (recordOutcome kind r k out))"
  by (cases out) (auto simp: recordOutcome_def)

lemma foldl_recordOutcome_counts:
  "success (foldl (\<lambda>res (k, rows). recordOutcome kind res k (sub k rows)) r groups)
     + failed (foldl (\<lambda>res (k, rows). recordOutcome kind res k (sub k rows)) r groups)
     = success r + failed r + length groups
   \<and> length (errors (foldl (\<lambda>res (k, rows). recordOutcome kind res k (sub k rows)) r groups))
       + failed r
     = length (errors r)
       + failed (foldl (\<lambda>res (k, rows). recordOutcome kind res k (sub k rows)) r groups)"
proof (induction groups arbitrary: r)
  case Nil
  show ?case by simp
next
  case (Cons g groups)
  obtain k rows where g: "g = (k, rows)" by (cases g)
  show ?case
    using Cons.IH [of "recordOutcome kind r k (sub k rows)"]
      recordOutcome_counts [of kind r k "sub k rows"]
    by (simp add: g)
qed

lemma pushGroup_keys:
  "fst ` set (pushGroup groups k e) = insert k (fst ` set groups)"
  "distinct (map fst groups) \<Longrightarrow> distinct (map fst (pushGroup groups k e))"
  by (auto simp: pushGroup_def obj_set_def dom_update distinct_update split: option.splits)

lemma groupBy_keys_aux:
  "distinct (map fst g) \<Longrightarrow>
   fst ` set (foldl (\<lambda>groups e. pushGroup groups (key e) e) g es) = fst ` set g \<union> key ` set es
   \<and> distinct (map fst (foldl (\<lambda>groups e. pushGroup groups (key e) e) g es))"
proof (induction es arbitrary: g)
  case Nil
  then show ?case by simp
next
  case (Cons e es)
  show ?case
    using Cons.IH [of "pushGroup g (key e) e"] pushGroup_keys [of g "key e" e] Cons.prems
    by auto
qed

lemma groupBy_keys:
  "fst ` set (groupBy key es) = key ` set es" "distinct (map fst (groupBy key es))"
  using groupBy_keys_aux [of "[]" key es] by (simp_all add: groupBy_def)

lemma length_Object_entries: "length (Object_entries obj) = length obj"
proof -
  have "\<forall>k \<in> set ks. f k \<noteq> None \<Longrightarrow> length (List.map_filter f ks) = length ks"
    for f :: "string \<Rightarrow> (string \<times> 'a) option" and ks
    by (induction ks) (auto split: option.splits)
  moreover have "\<forall>k \<in> set (Object_keys obj).
      (case obj_get obj k of None \<Rightarrow> None | Some v \<Rightarrow> Some (k, v)) \<noteq> None"
    by (auto simp: set_Object_keys obj_get_def map_of_eq_None_iff split: option.splits)
  ultimately show ?thesis
    by (simp add: Object_entries_def length_Object_keys)
qed

lemma number_of_groups: "length (Object_entries (groupBy key es)) = card (key ` set es)"
proof -
  have "length (groupBy key es) = card (set (map fst (groupBy key es)))"
    using groupBy_keys(2) [of key es] distinct_card [of "map fst (groupBy key es)"] by simp
  then show ?thesis
    by (simp add: length_Object_entries groupBy_keys(1))
qed

text \<open>The two loops, taken on their own, count every document group once: success plus
  failure is the number of distinct document keys, and there is one error string for each
  failure.\<close>

lemma sync_loops_count_every_document:
  "success (journalLoop svc env url (Object_entries (groupBy JournalNo es)))
     + failed (journalLoop svc env url (Object_entries (groupBy JournalNo es)))
     = card (JournalNo ` set es)"
  "length (errors (journalLoop svc env url (Object_entries (groupBy JournalNo es))))
     = failed (journalLoop svc env url (Object_entries (groupBy JournalNo es)))"
  "success (billLoop svc env url (Object_entries (groupBy billKey es)))
     + failed (billLoop svc env url (Object_entries (groupBy billKey es)))
     = card (billKey ` set es)"
  "length (errors (billLoop svc env url (Object_entries (groupBy billKey es))))
     = failed (billLoop svc env url (Object_entries (groupBy billKey es)))"
  using foldl_recordOutcome_counts [of "''Journal''" "submitJournal svc env url"
      "\<lparr>success = 0, failed = 0, errors = []\<rparr>" "Object_entries (groupBy JournalNo es)"]
    foldl_recordOutcome_counts [of "''Bill''" "submitBill svc env url"
      "\<lparr>success = 0, failed = 0, errors = []\<rparr>" "Object_entries (groupBy billKey es)"]
  by (simp_all add: journalLoop_def billLoop_def number_of_groups)

text \<open>The loop of \<open>syncJournalEntries\<close> on three journals, the second with an account that is
  not in the map: two successes, one failure, and one error string, which names the
  second journal.\<close>

lemma journalLoop_partial_failure:
  "journalLoop \<lparr>accountMap = [(''0-401-0 SALES'', ''7'')], vendorMap = []\<rparr>
      \<lparr>realmId = ''1'', todayISO = ''2024-01-02'', makeRequest = (\<lambda>url body. None)\<rparr>
      ''https://ledger.example/v3/company/1/journalentry''
      (Object_entries (groupBy JournalNo
        [\<lparr> JournalNo = ''CPIIF-010224'', JournalDate = ''01/02/2024'', DueDate = None,
            Description = ''(Ref: 1)'', Account = ''0-401-0 SALES'', Debit = ''5.00'', Credit = '''',
            Name = '''', LineAmount = None, BillNo = None, Supplier = None \<rparr>,
         \<lparr> JournalNo = ''CPIIF-010324'', JournalDate = ''01/03/2024'', DueDate = None,
            Description = ''(Ref: 2)'', Account = ''9-999-9 NOWHERE'', Debit = ''5.00'', Credit = '''',
            Name = '''', LineAmount = None, BillNo = None, Supplier = None \<rparr>,
         \<lparr> JournalNo = ''CPIIF-010424'', JournalDate = ''01/04/2024'', DueDate = None,
            Description = ''(Ref: 3)'', Account = ''0-401-0'', Debit = '''', Credit = ''5.00'',
            Name = '''', LineAmount = None, BillNo = None, Supplier = None \<rparr>]))
     = \<lparr> success = 2, failed = 1,
         errors = [''Journal CPIIF-010324: Account '' @ [CHR 0x22] @ ''9-999-9 NOWHERE'' @ [CHR 0x22]
                    @ '' not found in QuickBooks.''] \<rparr>"
  by (simp add: journalLoop_def Object_entries_def groupBy_def pushGroup_def recordOutcome_def
        submitJournal_def journalLine_def findAccountId_def truthy_def formatDate_def padStart2_def
        js_eval)

text \<open>
  Claim C6 does not hold of the code: \<open>syncJournalEntries\<close> and \<open>syncBills\<close> call
  \<open>this.getBaseUrl()\<close>, which the class does not define, before they group the rows and
  outside the \<open>try\<close> block.  Both raise a \<open>TypeError\<close> for one well-formed row whose account
  and vendor are mapped and with a remote ledger that accepts every request; nothing is
  submitted and no counts are returned.
\<close>

theorem sync_raises_before_grouping:
  "syncJournalEntries
      \<lparr>accountMap = [(''0-401-0 SALES'', ''7'')], vendorMap = []\<rparr>
      \<lparr>realmId = ''1'', todayISO = ''2024-01-02'', makeRequest = (\<lambda>url body. None)\<rparr>
      [\<lparr> JournalNo = ''CPIIF-010224'', JournalDate = ''01/02/2024'', DueDate = None,
          Description = ''(Ref: 1)'', Account = ''0-401-0 SALES'', Debit = ''5.00'', Credit = '''',
          Name = '''', LineAmount = None, BillNo = None, Supplier = None \<rparr>]
     = Inl (TypeError ''this.getBaseUrl is not a function'')
   \<and> syncBills
      \<lparr>accountMap = [(''0-682-0 SHIPPING EXPENSE'', ''7'')], vendorMap = [(''ACME'', ''3'')]\<rparr>
      \<lparr>realmId = ''1'', todayISO = ''2024-01-02'', makeRequest = (\<lambda>url body. None)\<rparr>
      [\<lparr> JournalNo = ''1001'', JournalDate = ''01/02/2024'', DueDate = Some ''02/01/2024'',
          Description = ''freight'', Account = ''0-682-0 SHIPPING EXPENSE'', Debit = ''5.00'',
          Credit = ''0'', Name = ''ACME'', LineAmount = Some ''5.00'', BillNo = Some ''1001'',
          Supplier = Some ''ACME'' \<rparr>]
     = Inl (TypeError ''this.getBaseUrl is not a function'')"
  by (simp add: syncJournalEntries_def syncBills_def getBaseUrl_def)

section \<open>The ledger ingestion\<close>

subsection \<open>The subtotals of a daily group\<close>








subsection \<open>The reporting date\<close>










subsection \<open>A batch without valid rows\<close>

lemma rows_all_invalid:
  "\<forall>row \<in> set rows. rowFn 0 row = None \<Longrightarrow> foldl (rowStep rowFn) ([], 0) rows = ([], 0)"
  by (induction rows) (simp_all add: rowStep_def)

lemma parseFiles_all_invalid:
  "\<forall>f \<in> set files. \<exists>rows. parseResult f = Inr rows \<and> (\<forall>row \<in> set rows. rowFn (fileName f) 0 row = None)
   \<Longrightarrow> parseFiles rowFn ([], 0) files = Inr ([], 0)"
proof (induction files)
  case Nil
  show ?case by simp
next
  case (Cons f fs)
  then obtain rows where rows: "parseResult f = Inr rows"
    "\<forall>row \<in> set rows. rowFn (fileName f) 0 row = None"
    by auto
  from Cons have "parseFiles rowFn ([], 0) fs = Inr ([], 0)" by simp
  then show ?case
    using rows_all_invalid [where rows = rows and rowFn = "rowFn (fileName f)"] rows
    by simp
qed

lemma parseFiles_error:
  "(\<exists>e. parseFiles rowFn st files = Inl e) = (\<exists>f \<in> set files. isl (parseResult f))"
  by (induction files arbitrary: st) (auto split: sum.splits)

lemma summarize_Nil:
  "summarize env [] = \<lparr> dateRange = todayLocal env, totalAmount = Num 0, totalFees = Num 0,
       totalNet = Num 0, transactionCount = 0, dailyGroups = [], allTransactions = [],
       aiAnalysis = None \<rparr>"
  by (simp add: summarize_def sortNewestFirst_def groupTransactionsByDate_def centTotal_def)

text \<open>
  Claim C1, as the code has it.  \<open>parseShopifyCSV\<close> and \<open>parsePaypalCSV\<close> reject exactly when
  the reader fails on one of the files.  When every file is read and no row of any file is
  valid, they resolve, with the empty report: no transactions, no daily groups, totals 0,
  and today's date as the date range.
\<close>

theorem ingest_without_valid_rows:
  "((\<exists>e. parseShopifyCSV env files = Inl e) = (\<exists>f \<in> set files. isl (parseResult f)))
   \<and> ((\<exists>e. parsePaypalCSV env files = Inl e) = (\<exists>f \<in> set files. isl (parseResult f)))
   \<and> ((\<forall>f \<in> set files. \<exists>rows. parseResult f = Inr rows
            \<and> (\<forall>row \<in> set rows. shopifyRow env (fileName f) 0 row = None))
        \<longrightarrow> parseShopifyCSV env files
            = Inr \<lparr> dateRange = todayLocal env, totalAmount = Num 0, totalFees = Num 0,
                    totalNet = Num 0, transactionCount = 0, dailyGroups = [],
                    allTransactions = [], aiAnalysis = None \<rparr>)
   \<and> ((\<forall>f \<in> set files. \<exists>rows. parseResult f = Inr rows
            \<and> (\<forall>row \<in> set rows. paypalRow env (fileName f) 0 row = None))
        \<longrightarrow> parsePaypalCSV env files
            = Inr \<lparr> dateRange = todayLocal env, totalAmount = Num 0, totalFees = Num 0,
                    totalNet = Num 0, transactionCount = 0, dailyGroups = [],
                    allTransactions = [], aiAnalysis = None \<rparr>)"
proof -
  have e1: "(\<exists>e. parseShopifyCSV env files = Inl e) = (\<exists>f \<in> set files. isl (parseResult f))"
    using parseFiles_error [of "shopifyRow env" "([], 0)" files]
    by (auto simp: parseShopifyCSV_def split: sum.splits)
  have e2: "(\<exists>e. parsePaypalCSV env files = Inl e) = (\<exists>f \<in> set files. isl (parseResult f))"
    using parseFiles_error [of "paypalRow env" "([], 0)" files]
    by (auto simp: parsePaypalCSV_def split: sum.splits)
  have s: "parseShopifyCSV env files = Inr (summarize env [])"
    if "\<forall>f \<in> set files. \<exists>rows. parseResult f = Inr rows
            \<and> (\<forall>row \<in> set rows. shopifyRow env (fileName f) 0 row = None)"
    using parseFiles_all_invalid [where files = files and rowFn = "shopifyRow env"] that
    by (simp add: parseShopifyCSV_def)
  have p: "parsePaypalCSV env files = Inr (summarize env [])"
    if "\<forall>f \<in> set files. \<exists>rows. parseResult f = Inr rows
            \<and> (\<forall>row \<in> set rows. paypalRow env (fileName f) 0 row = None)"
    using parseFiles_all_invalid [where files = files and rowFn = "paypalRow env"] that
    by (simp add: parsePaypalCSV_def)
  show ?thesis
    using e1 e2 s p by (simp only: summarize_Nil) blast
qed

text \<open>A PayPal row without a time, a Shopify row without a number, and a file that cannot
  be read.\<close>

theorem ingest_without_valid_rows_witness:
  "parsePaypalCSV \<lparr> newDate = (\<lambda>s. None), nowISO = ''2024-02-01T00:00:00.000Z'',
                      todayLocal = ''2/1/2024'' \<rparr>
      [\<lparr> fileName = ''p.csv'', parseResult = Inr [[(''Date'', ''01/05/2024'')]] \<rparr>]
     = Inr \<lparr> dateRange = ''2/1/2024'', totalAmount = Num 0, totalFees = Num 0, totalNet = Num 0,
             transactionCount = 0, dailyGroups = [], allTransactions = [], aiAnalysis = None \<rparr>
   \<and> parseShopifyCSV \<lparr> newDate = (\<lambda>s. None), nowISO = ''2024-02-01T00:00:00.000Z'',
                      todayLocal = ''2/1/2024'' \<rparr>
      [\<lparr> fileName = ''s.csv'', parseResult = Inr [[(''Total'', ''n/a'')]] \<rparr>]
     = Inr \<lparr> dateRange = ''2/1/2024'', totalAmount = Num 0, totalFees = Num 0, totalNet = Num 0,
             transactionCount = 0, dailyGroups = [], allTransactions = [], aiAnalysis = None \<rparr>
   \<and> parseShopifyCSV \<lparr> newDate = (\<lambda>s. None), nowISO = ''2024-02-01T00:00:00.000Z'',
                      todayLocal = ''2/1/2024'' \<rparr>
      [\<lparr> fileName = ''s.csv'', parseResult = Inl (Error ''unreadable'') \<rparr>]
     = Inl (Error ''unreadable'')"
  using ingest_without_valid_rows [of
      "\<lparr> newDate = (\<lambda>s. None), nowISO = ''2024-02-01T00:00:00.000Z'', todayLocal = ''2/1/2024'' \<rparr>"
      "[\<lparr> fileName = ''p.csv'', parseResult = Inr [[(''Date'', ''01/05/2024'')]] \<rparr>]"]
    ingest_without_valid_rows [of
      "\<lparr> newDate = (\<lambda>s. None), nowISO = ''2024-02-01T00:00:00.000Z'', todayLocal = ''2/1/2024'' \<rparr>"
      "[\<lparr> fileName = ''s.csv'', parseResult = Inr [[(''Total'', ''n/a'')]] \<rparr>]"]
    ingest_without_valid_rows [of
      "\<lparr> newDate = (\<lambda>s. None), nowISO = ''2024-02-01T00:00:00.000Z'', todayLocal = ''2/1/2024'' \<rparr>"
      "[\<lparr> fileName = ''s.csv'', parseResult = Inl (Error ''unreadable'') \<rparr>]"]
  by (simp add: parseShopifyCSV_def parsePaypalCSV_def rowStep_def shopifyRow_def paypalRow_def
        orElse_def orDefault_def truthy_def cleanNumber_def summarize_Nil js_eval)

text \<open>Claim C1 as stated fails: one file whose only row has an amount that is not a
  number yields no valid row, and the call resolves with the empty report.\<close>

theorem ingest_resolves_with_empty_report_counterexample:
  "parseShopifyCSV \<lparr> newDate = (\<lambda>s. None), nowISO = ''2024-02-01T00:00:00.000Z'',
                      todayLocal = ''2/1/2024'' \<rparr>
      [\<lparr> fileName = ''a.csv'', parseResult = Inr [[(''Amount'', ''abc'')]] \<rparr>]
     = Inr \<lparr> dateRange = ''2/1/2024'', totalAmount = Num 0, totalFees = Num 0, totalNet = Num 0,
             transactionCount = 0, dailyGroups = [], allTransactions = [], aiAnalysis = None \<rparr>"
  by (simp add: parseShopifyCSV_def rowStep_def shopifyRow_def orElse_def orDefault_def truthy_def
        cleanNumber_def summarize_Nil js_eval)

end
